theory Spec2Isabelle
  imports Main "HOL-Library.Sublist"
begin

section \<open>Data model of \<open>orchestrator_example.py\<close>\<close>

text \<open>
  Texts are \<open>string\<close>s: lists of 8-bit characters, read as the code points 0..255 of a
  Python \<open>str\<close>. Python values that \<open>json.loads\<close> can build are the type \<open>pyval\<close>;
  \<open>PNone\<close> is Python's \<open>None\<close>, which is also what the JSON literal \<open>null\<close> decodes to.
  String values hold code points (\<open>nat\<close>), since a \<open>\uXXXX\<close> escape can name any of them.
  A float is kept as the lexeme it was read from.
\<close>

datatype pyval =
    PNone
  | PBool bool
  | PInt int
  | PFloat string
  | PStr "nat list"
  | PList "pyval list"
  | PDict "(nat list \<times> pyval) list"

datatype InvocationStatus = SUCCESS | FAILED | TIMEOUT | FALLBACK

record CLIInvocationResult =
  status :: InvocationStatus
  tool :: string
  output' :: string
  parsed_json :: pyval
  duration_ms :: int
  returncode :: int
  error :: "string option"
  fallback_used :: bool
  command :: "string list"

record CLIOrchestrator =
  primary_cli :: string
  fallback_cli :: "string option"
  default_timeout :: int
  project_dir :: string

definition DEFAULT_ALLOWED_TOOLS :: "string list" where
  "DEFAULT_ALLOWED_TOOLS =
     [''Write'', ''Read'', ''Edit'', ''Glob'', ''Grep'', ''LS'',
      ''Bash'', ''Task'', ''Skill'',
      ''WebFetch'', ''WebSearch'',
      ''mcp__perplexity-ask__perplexity_ask'',
      ''mcp__context7__resolve-library-id'',
      ''mcp__context7__get-library-docs'',
      ''mcp__brave-search__brave_web_search'']"

text \<open>
  \<open>__init__\<close>: the fallback name \<open>"none"\<close> switches the fallback off; a missing project
  directory becomes the current directory \<open>cwd\<close>.
\<close>

definition init_orchestrator ::
  "string \<Rightarrow> string option \<Rightarrow> int \<Rightarrow> string option \<Rightarrow> string \<Rightarrow> CLIOrchestrator" where
  "init_orchestrator primary fallback dflt_timeout proj cwd =
     \<lparr> primary_cli = primary,
       fallback_cli = (if fallback \<noteq> Some ''none'' then fallback else None),
       default_timeout = dflt_timeout,
       project_dir = (case proj of None \<Rightarrow> cwd | Some d \<Rightarrow> if d = [] then cwd else d) \<rparr>"

definition default_orchestrator :: "string \<Rightarrow> CLIOrchestrator" where
  "default_orchestrator cwd = init_orchestrator ''claude'' (Some ''opencode'') 600 None cwd"

section \<open>CommandBuilder: \<open>build_command\<close>\<close>

text \<open>
  Python truthiness of an optional string (\<open>if model:\<close>): \<open>None\<close> and the empty string
  are false. An optional list that is \<open>None\<close> or empty contributes nothing (\<open>if add_dirs:\<close>
  followed by a loop over it).
\<close>

fun truthy :: "'a list option \<Rightarrow> bool" where
  "truthy None = False"
| "truthy (Some xs) = (xs \<noteq> [])"

fun extend_opt :: "string list \<Rightarrow> string \<Rightarrow> string option \<Rightarrow> string list" where
  "extend_opt cmd flag v = (if truthy v then cmd @ [flag, the v] else cmd)"

fun extend_each :: "string list \<Rightarrow> string \<Rightarrow> string list \<Rightarrow> string list" where
  "extend_each cmd flag [] = cmd"
| "extend_each cmd flag (x # xs) = extend_each (cmd @ [flag, x]) flag xs"

fun extend_all :: "string list \<Rightarrow> string \<Rightarrow> string list option \<Rightarrow> string list" where
  "extend_all cmd flag v = (if truthy v then extend_each cmd flag (the v) else cmd)"

definition sandbox_payload :: "string \<Rightarrow> string" where
  "sandbox_payload prompt = ''/sandbox'' @ [CHR 0x0A] @ prompt"

definition build_command ::
  "string \<Rightarrow> string \<Rightarrow> string option \<Rightarrow> string list option \<Rightarrow> string list option
     \<Rightarrow> string option \<Rightarrow> bool \<Rightarrow> string list \<times> string option" where
  "build_command tname prompt model allowed_tools add_dirs settings_json enable_sandbox =
     (if tname = ''opencode'' then
        (let cmd = [''opencode'', ''run''];
             cmd = extend_opt cmd ''--model'' model;
             cmd = cmd @ [prompt]
         in (cmd, None))
      else
        (let cmd = [''claude''];
             cmd = extend_opt cmd ''--model'' model;
             cmd = extend_opt cmd ''--settings'' settings_json;
             cmd = extend_all cmd ''--add-dir'' add_dirs;
             cmd = extend_all cmd ''--allowedTools'' allowed_tools
         in if enable_sandbox
            then (cmd @ [''-p''], Some (sandbox_payload prompt))
            else (cmd @ [''-p'', prompt], None)))"

section \<open>The library's JSON decoder: \<open>json.loads\<close>\<close>

text \<open>
  \<open>json.loads\<close> is the Python library's decoder, not code of this repository. It is
  modelled after the library's scanner and decoder (\<open>json/scanner.py\<close>,
  \<open>json/decoder.py\<close> and their C accelerators): the result is \<open>Some v\<close> for the value
  the text decodes to and \<open>None\<close> where the decoder raises \<open>JSONDecodeError\<close>. The
  decoder recurses into nested arrays and objects; the model bounds that recursion by a
  counter started at twice the length of the text plus one, more than any nesting or
  element count the text can contain.
\<close>

definition code :: "char \<Rightarrow> nat" where
  "code c = of_char c"

definition json_ws :: "char \<Rightarrow> bool" where
  "json_ws c = (c = CHR '' '' \<or> c = CHR 0x09 \<or> c = CHR 0x0A \<or> c = CHR 0x0D)"

definition skip_ws :: "string \<Rightarrow> string" where
  "skip_ws s = dropWhile json_ws s"

definition is_digit :: "char \<Rightarrow> bool" where
  "is_digit c = (48 \<le> code c \<and> code c \<le> 57)"

definition digit_val :: "char \<Rightarrow> nat" where
  "digit_val c = code c - 48"

definition digits_val :: "string \<Rightarrow> nat" where
  "digits_val ds = foldl (\<lambda>acc d. 10 * acc + digit_val d) 0 ds"

definition hex_val :: "char \<Rightarrow> nat option" where
  "hex_val c =
     (let n = code c in
      if 48 \<le> n \<and> n \<le> 57 then Some (n - 48)
      else if 97 \<le> n \<and> n \<le> 102 then Some (n - 87)
      else if 65 \<le> n \<and> n \<le> 70 then Some (n - 55)
      else None)"

definition hex4 :: "string \<Rightarrow> nat option" where
  "hex4 s =
     (case s of
        a # b # c # d # _ \<Rightarrow>
          (case (hex_val a, hex_val b, hex_val c, hex_val d) of
             (Some x, Some y, Some z, Some w) \<Rightarrow> Some (((x * 16 + y) * 16 + z) * 16 + w)
           | _ \<Rightarrow> None)
      | _ \<Rightarrow> None)"

definition backslash :: "char \<Rightarrow> nat option" where
  "backslash e =
     (if e = CHR 0x22 then Some 0x22
      else if e = CHR 0x5C then Some 0x5C
      else if e = CHR ''/'' then Some 0x2F
      else if e = CHR ''b'' then Some 0x08
      else if e = CHR ''f'' then Some 0x0C
      else if e = CHR ''n'' then Some 0x0A
      else if e = CHR ''r'' then Some 0x0D
      else if e = CHR ''t'' then Some 0x09
      else None)"

definition scan_number :: "string \<Rightarrow> (pyval \<times> string) option" where
  "scan_number s =
     (let (sign, s1) = (case s of [] \<Rightarrow> ([], s)
                        | c # cs \<Rightarrow> if c = CHR ''-'' then ([c], cs) else ([], s))
      in case s1 of
           [] \<Rightarrow> None
         | c # cs \<Rightarrow>
             if \<not> is_digit c then None
             else
               (let (ipart, s2) = (if c = CHR ''0'' then ([c], cs)
                                   else (takeWhile is_digit s1, dropWhile is_digit s1));
                    (frac, s3) = (case s2 of
                                    p # d # r \<Rightarrow>
                                      if p = CHR ''.'' \<and> is_digit d
                                      then (p # d # takeWhile is_digit r, dropWhile is_digit r)
                                      else ([], s2)
                                  | _ \<Rightarrow> ([], s2));
                    (ex, s4) = (case s3 of
                                  e # r \<Rightarrow>
                                    if e = CHR ''e'' \<or> e = CHR ''E'' then
                                      (let (sg, r1) = (case r of [] \<Rightarrow> ([], r)
                                                        | g # r' \<Rightarrow> if g = CHR ''-'' \<or> g = CHR ''+''
                                                                    then ([g], r') else ([], r));
                                           ds = takeWhile is_digit r1
                                       in if ds = [] then ([], s3)
                                          else (e # sg @ ds, dropWhile is_digit r1))
                                    else ([], s3)
                                | [] \<Rightarrow> ([], s3))
                in if frac = [] \<and> ex = []
                   then Some (PInt (if sign = [] then int (digits_val ipart)
                                    else - int (digits_val ipart)), s4)
                   else Some (PFloat (sign @ ipart @ frac @ ex), s4)))"

fun scan_string :: "string \<Rightarrow> nat list \<Rightarrow> (nat list \<times> string) option" where
  "scan_string [] acc = None"
| "scan_string (c # cs) acc =
     (if c = CHR 0x22 then Some (acc, cs)
      else if c = CHR 0x5C then
        (case cs of
           [] \<Rightarrow> None
         | e # r \<Rightarrow>
             if e = CHR ''u'' then
               (case r of
                  h1 # h2 # h3 # h4 # r1 \<Rightarrow>
                    (case hex4 [h1, h2, h3, h4] of
                       None \<Rightarrow> None
                     | Some u \<Rightarrow>
                         if 0xD800 \<le> u \<and> u \<le> 0xDBFF then
                           (case r1 of
                              b # v # k1 # k2 # k3 # k4 # q # r2 \<Rightarrow>
                                if b = CHR 0x5C \<and> v = CHR ''u'' then
                                  (case hex4 [k1, k2, k3, k4] of
                                     None \<Rightarrow> None
                                   | Some u2 \<Rightarrow>
                                       if 0xDC00 \<le> u2 \<and> u2 \<le> 0xDFFF
                                       then scan_string (q # r2)
                                              (acc @ [0x10000 + (u - 0xD800) * 0x400 + (u2 - 0xDC00)])
                                       else scan_string r1 (acc @ [u]))
                                else scan_string r1 (acc @ [u])
                            | _ \<Rightarrow> scan_string r1 (acc @ [u]))
                         else scan_string r1 (acc @ [u]))
                | _ \<Rightarrow> None)
             else
               (case backslash e of
                  None \<Rightarrow> None
                | Some ch \<Rightarrow> scan_string r (acc @ [ch])))
      else if code c < 0x20 then None
      else scan_string cs (acc @ [code c]))"

fun dict_set :: "(nat list \<times> pyval) list \<Rightarrow> nat list \<Rightarrow> pyval \<Rightarrow> (nat list \<times> pyval) list" where
  "dict_set [] k v = [(k, v)]"
| "dict_set ((k', v') # kvs) k v =
     (if k' = k then (k', v) # kvs else (k', v') # dict_set kvs k v)"

fun parse_value :: "nat \<Rightarrow> string \<Rightarrow> (pyval \<times> string) option"
and parse_array :: "nat \<Rightarrow> string \<Rightarrow> pyval list \<Rightarrow> (pyval \<times> string) option"
and parse_object :: "nat \<Rightarrow> string \<Rightarrow> (nat list \<times> pyval) list \<Rightarrow> (pyval \<times> string) option"
where
  "parse_value 0 s = None"
| "parse_value (Suc n) s =
     (case s of
        [] \<Rightarrow> None
      | c # cs \<Rightarrow>
          if c = CHR 0x22 then
            (case scan_string cs [] of None \<Rightarrow> None | Some (str, r) \<Rightarrow> Some (PStr str, r))
          else if c = CHR ''{'' then
            (case skip_ws cs of
               [] \<Rightarrow> None
             | d # r \<Rightarrow> if d = CHR ''}'' then Some (PDict [], r) else parse_object n (d # r) [])
          else if c = CHR ''['' then
            (case skip_ws cs of
               [] \<Rightarrow> None
             | d # r \<Rightarrow> if d = CHR '']'' then Some (PList [], r) else parse_array n (d # r) [])
          else if prefix ''null'' s then Some (PNone, drop 4 s)
          else if prefix ''true'' s then Some (PBool True, drop 4 s)
          else if prefix ''false'' s then Some (PBool False, drop 5 s)
          else
            (case scan_number s of
               Some x \<Rightarrow> Some x
             | None \<Rightarrow>
                 if prefix ''NaN'' s then Some (PFloat ''NaN'', drop 3 s)
                 else if prefix ''Infinity'' s then Some (PFloat ''Infinity'', drop 8 s)
                 else if prefix ''-Infinity'' s then Some (PFloat ''-Infinity'', drop 9 s)
                 else None))"
| "parse_array 0 s acc = None"
| "parse_array (Suc n) s acc =
     (case parse_value n s of
        None \<Rightarrow> None
      | Some (v, r) \<Rightarrow>
          (case skip_ws r of
             [] \<Rightarrow> None
           | d # r' \<Rightarrow>
               if d = CHR '']'' then Some (PList (acc @ [v]), r')
               else if d = CHR '','' then parse_array n (skip_ws r') (acc @ [v])
               else None))"
| "parse_object 0 s acc = None"
| "parse_object (Suc n) s acc =
     (case s of
        [] \<Rightarrow> None
      | q # cs \<Rightarrow>
          if q \<noteq> CHR 0x22 then None
          else
            (case scan_string cs [] of
               None \<Rightarrow> None
             | Some (k, r) \<Rightarrow>
                 (case skip_ws r of
                    [] \<Rightarrow> None
                  | col # r1 \<Rightarrow>
                      if col \<noteq> CHR '':'' then None
                      else
                        (case parse_value n (skip_ws r1) of
                           None \<Rightarrow> None
                         | Some (v, r2) \<Rightarrow>
                             (case skip_ws r2 of
                                [] \<Rightarrow> None
                              | d # r3 \<Rightarrow>
                                  if d = CHR ''}'' then Some (PDict (dict_set acc k v), r3)
                                  else if d = CHR '','' then
                                    parse_object n (skip_ws r3) (dict_set acc k v)
                                  else None)))))"

definition json_loads :: "string \<Rightarrow> pyval option" where
  "json_loads s =
     (case parse_value (Suc (2 * length s)) (skip_ws s) of
        None \<Rightarrow> None
      | Some (v, r) \<Rightarrow> if skip_ws r = [] then Some v else None)"

section \<open>The library's regular expressions: \<open>re.findall\<close> and \<open>str.strip\<close>\<close>

text \<open>
  The three patterns of \<open>extract_json_from_output\<close> use character classes, literal
  text, a greedy optional group, greedy and lazy repetition of a class, and one capturing
  group. \<open>rx_run r s\<close> lists, in the backtracking order of the library's matcher, every
  way \<open>r\<close> can match at the start of \<open>s\<close>: the group captured and the text left over.
  The first element is the match the library reports. \<open>findall r 0 s\<close> scans \<open>s\<close> from
  left to right for non-overlapping matches and returns the text of the group of each
  (the counter is the number of characters of the last match still to be skipped).
  \<open>\s\<close> and \<open>str.strip\<close> use the same whitespace class.
\<close>

definition py_isspace :: "char \<Rightarrow> bool" where
  "py_isspace c =
     (let n = code c in (9 \<le> n \<and> n \<le> 13) \<or> (28 \<le> n \<and> n \<le> 32) \<or> n = 133 \<or> n = 160)"

definition strip :: "string \<Rightarrow> string" where
  "strip s = rev (dropWhile py_isspace (rev (dropWhile py_isspace s)))"

datatype cls = AnyChar | Space | Lit char

fun cls_ok :: "cls \<Rightarrow> char \<Rightarrow> bool" where
  "cls_ok AnyChar c = True"
| "cls_ok Space c = py_isspace c"
| "cls_ok (Lit d) c = (c = d)"

datatype rx =
    Atom cls
  | Str string
  | Seq rx rx
  | Opt rx
  | StarG cls
  | StarL cls
  | Group rx

fun star_ends :: "cls \<Rightarrow> string \<Rightarrow> string list" where
  "star_ends k [] = [[]]"
| "star_ends k (c # cs) = (c # cs) # (if cls_ok k c then star_ends k cs else [])"

fun rx_run :: "rx \<Rightarrow> string \<Rightarrow> (string option \<times> string) list" where
  "rx_run (Atom k) s = (case s of [] \<Rightarrow> [] | c # cs \<Rightarrow> if cls_ok k c then [(None, cs)] else [])"
| "rx_run (Str l) s = (if prefix l s then [(None, drop (length l) s)] else [])"
| "rx_run (Seq a b) s =
     concat (map (\<lambda>(g, r). map (\<lambda>(g', r'). (case g' of None \<Rightarrow> g | Some x \<Rightarrow> Some x, r'))
                              (rx_run b r))
                 (rx_run a s))"
| "rx_run (Opt a) s = rx_run a s @ [(None, s)]"
| "rx_run (StarG k) s = map (Pair None) (rev (star_ends k s))"
| "rx_run (StarL k) s = map (Pair None) (star_ends k s)"
| "rx_run (Group a) s = map (\<lambda>(g, r). (Some (take (length s - length r) s), r)) (rx_run a s)"

fun findall :: "rx \<Rightarrow> nat \<Rightarrow> string \<Rightarrow> string list" where
  "findall r k [] = []"
| "findall r (Suc k) (c # cs) = findall r k cs"
| "findall r 0 (c # cs) =
     (case rx_run r (c # cs) of
        [] \<Rightarrow> findall r 0 cs
      | (g, rest) # _ \<Rightarrow>
          (case g of None \<Rightarrow> take (length (c # cs) - length rest) (c # cs) | Some x \<Rightarrow> x)
            # findall r (length cs - length rest) cs)"

definition fence_pattern :: rx where
  "fence_pattern =
     Seq (Str ''```'') (Seq (Opt (Str ''json'')) (Seq (StarG Space) (Seq (Atom (Lit (CHR 0x0A)))
       (Seq (Group (StarL AnyChar)) (Str (CHR 0x0A # ''```''))))))"

definition brace_pattern :: rx where
  "brace_pattern = Group (Seq (Atom (Lit CHR ''{'')) (Seq (StarG AnyChar) (Atom (Lit CHR ''}''))))"

definition bracket_pattern :: rx where
  "bracket_pattern = Group (Seq (Atom (Lit CHR ''['')) (Seq (StarG AnyChar) (Atom (Lit CHR '']''))))"

section \<open>OutputExtractor: \<open>extract_json_from_output\<close>\<close>

text \<open>
  The three strategies in the order of the source: the whole text; the contents of each
  fenced block, stripped; the greedy \<open>{...}\<close> match, then the greedy \<open>[...]\<close> match.
  A \<open>JSONDecodeError\<close> is caught and the loop continues (\<open>first_parsed\<close>). The function
  returns the decoded value, or Python's \<open>None\<close>.
\<close>

fun first_parsed :: "string list \<Rightarrow> pyval option" where
  "first_parsed [] = None"
| "first_parsed (m # ms) = (case json_loads m of Some v \<Rightarrow> Some v | None \<Rightarrow> first_parsed ms)"

fun first_pattern :: "rx list \<Rightarrow> string \<Rightarrow> pyval option" where
  "first_pattern [] out = None"
| "first_pattern (p # ps) out =
     (case first_parsed (findall p 0 out) of Some v \<Rightarrow> Some v | None \<Rightarrow> first_pattern ps out)"

definition extract_json_from_output :: "string \<Rightarrow> pyval" where
  "extract_json_from_output out =
     (if out = [] then PNone
      else case json_loads out of
             Some v \<Rightarrow> v
           | None \<Rightarrow>
               (case first_parsed (map strip (findall fence_pattern 0 out)) of
                  Some v \<Rightarrow> v
                | None \<Rightarrow>
                    (case first_pattern [brace_pattern, bracket_pattern] out of
                       Some v \<Rightarrow> v
                     | None \<Rightarrow> PNone)))"

section \<open>Child processes\<close>

text \<open>
  What the operating system does with the command is an input of the model. A child
  process either cannot be started (\<open>SpawnFails\<close>: the binary is missing, permission is
  denied), or exits with an exit code, a standard output and a standard error, or is
  still running when the timeout expires, having written some standard output by then.
  \<open>elapsed_ms\<close> is the value of \<open>int((time.time() - start_time) * 1000)\<close> where the
  result is assembled. Decoding of the captured bytes is not modelled: captured output
  is text. \<open>child_state\<close> is the state of the child process when the invoker returns.
\<close>

datatype proc_behaviour =
    SpawnFails
  | Exits int string string
  | Hangs string

record proc_env =
  behaviour :: proc_behaviour
  elapsed_ms :: int

datatype child_state = NoChild | Running | Reaped

datatype exn = OSError | TimeoutExpired string | TimeoutError | ValueError

text \<open>
  \<open>subprocess.run(cmd, capture_output=True, text=True, timeout=..)\<close>: an exception of the
  operating system where the child cannot be started; the completed process where it
  exits; where the timeout expires the library kills the child, waits for it, and raises
  \<open>TimeoutExpired\<close>, which carries the output captured so far.
\<close>

definition subprocess_run :: "proc_behaviour \<Rightarrow> (exn + int \<times> string \<times> string) \<times> child_state" where
  "subprocess_run b =
     (case b of
        SpawnFails \<Rightarrow> (Inl OSError, NoChild)
      | Exits rc out err \<Rightarrow> (Inr (rc, out, err), Reaped)
      | Hangs partial \<Rightarrow> (Inl (TimeoutExpired partial), Reaped))"

text \<open>
  \<open>asyncio.create_subprocess_exec\<close> starts the child or raises.
  \<open>asyncio.wait_for(process.communicate(), timeout)\<close> returns the captured output once
  the child has exited, and then \<open>process.returncode\<close> is its exit code; where the timeout
  expires it cancels the \<open>communicate\<close> coroutine and raises \<open>TimeoutError\<close>: the child is
  not signalled, \<open>process.returncode\<close> is still \<open>None\<close>.
\<close>

definition create_subprocess_exec :: "proc_behaviour \<Rightarrow> exn + child_state" where
  "create_subprocess_exec b = (case b of SpawnFails \<Rightarrow> Inl OSError | _ \<Rightarrow> Inr Running)"

definition wait_for_communicate ::
  "proc_behaviour \<Rightarrow> child_state \<Rightarrow> (exn + string \<times> string) \<times> int option \<times> child_state" where
  "wait_for_communicate b child =
     (case b of
        Exits rc out err \<Rightarrow> (Inr (out, err), Some rc, Reaped)
      | _ \<Rightarrow> (Inl TimeoutError, None, child))"

text \<open>Python's \<open>str\<close> of an integer, for the f-string of the timeout message.\<close>

fun show_nat :: "nat \<Rightarrow> string" where
  "show_nat n = (if n < 10 then [char_of (48 + n)] else show_nat (n div 10) @ [char_of (48 + n mod 10)])"

declare show_nat.simps [simp del]

definition show_int :: "int \<Rightarrow> string" where
  "show_int i = (if i < 0 then CHR ''-'' # show_nat (nat (- i)) else show_nat (nat i))"

text \<open>Python's \<open>x or d\<close> on an optional integer: \<open>None\<close> and \<open>0\<close> are false.\<close>

definition or_int :: "int option \<Rightarrow> int \<Rightarrow> int" where
  "or_int x d = (case x of None \<Rightarrow> d | Some v \<Rightarrow> if v = 0 then d else v)"

definition or_list :: "'a list option \<Rightarrow> 'a list \<Rightarrow> 'a list" where
  "or_list x d = (if truthy x then the x else d)"

section \<open>SyncInvoker: \<open>invoke_sync\<close>\<close>

definition invoke_sync ::
  "CLIOrchestrator \<Rightarrow> string \<Rightarrow> string option \<Rightarrow> int option \<Rightarrow> string option
     \<Rightarrow> string list option \<Rightarrow> proc_env \<Rightarrow> (exn + CLIInvocationResult) \<times> child_state" where
  "invoke_sync self prompt tool_arg timeout_arg working_dir allowed_arg env =
     (let tname = or_list tool_arg (primary_cli self);
          timeout = or_int timeout_arg (default_timeout self);
          allowed_tools = or_list allowed_arg DEFAULT_ALLOWED_TOOLS;
          (cmd, stdin_content) =
             build_command tname prompt None
               (if tname = ''claude'' then Some allowed_tools else None) None None False
      in case subprocess_run (behaviour env) of
           (Inr (rc, out, err), child) \<Rightarrow>
             (if rc = 0 then
                (Inr \<lparr> status = SUCCESS, tool = tname, output' = out,
                       parsed_json = extract_json_from_output out,
                       duration_ms = elapsed_ms env, returncode = rc, error = None,
                       fallback_used = False, command = cmd \<rparr>, child)
              else
                (Inr \<lparr> status = FAILED, tool = tname, output' = out,
                       parsed_json = PNone,
                       duration_ms = elapsed_ms env, returncode = rc, error = Some err,
                       fallback_used = False, command = cmd \<rparr>, child))
         | (Inl e, child) \<Rightarrow>
             (case e of
                TimeoutExpired partial \<Rightarrow>
                  (Inr \<lparr> status = TIMEOUT, tool = tname, output' = [],
                         parsed_json = PNone,
                         duration_ms = elapsed_ms env, returncode = - 1,
                         error = Some (''Timeout after '' @ show_int timeout @ ''s''),
                         fallback_used = False, command = cmd \<rparr>, child)
              | _ \<Rightarrow> (Inl e, child)))"

section \<open>AsyncInvoker: \<open>invoke_async\<close>\<close>

text \<open>
  The standard-input block of the source (\<open>if stdin_content and process.stdin\<close>) writes
  the payload of \<open>build_command\<close> to the child; \<open>invoke_async\<close> never asks for sandbox
  mode, so the payload is \<open>None\<close> and the block is skipped. The handler of \<open>TimeoutError\<close>
  builds the result and returns: it calls neither \<open>process.kill\<close> nor \<open>process.wait\<close>, so
  the child is left in the state \<open>wait_for\<close> left it in.
\<close>

definition invoke_async ::
  "CLIOrchestrator \<Rightarrow> string \<Rightarrow> string option \<Rightarrow> int option \<Rightarrow> string option
     \<Rightarrow> string list option \<Rightarrow> proc_env \<Rightarrow> (exn + CLIInvocationResult) \<times> child_state" where
  "invoke_async self prompt tool_arg timeout_arg working_dir allowed_arg env =
     (let tname = or_list tool_arg (primary_cli self);
          timeout = or_int timeout_arg (default_timeout self);
          allowed_tools = or_list allowed_arg DEFAULT_ALLOWED_TOOLS;
          (cmd, stdin_content) =
             build_command tname prompt None
               (if tname = ''claude'' then Some allowed_tools else None) None None False
      in case create_subprocess_exec (behaviour env) of
           Inl e \<Rightarrow> (Inl e, NoChild)
         | Inr process \<Rightarrow>
             (case wait_for_communicate (behaviour env) process of
                (Inr (stdout, stderr), process_returncode, child) \<Rightarrow>
                  (let stdout_str = (if stdout \<noteq> [] then stdout else [])
                   in if process_returncode = Some 0 then
                        (Inr \<lparr> status = SUCCESS, tool = tname, output' = stdout_str,
                               parsed_json = extract_json_from_output stdout_str,
                               duration_ms = elapsed_ms env,
                               returncode = or_int process_returncode 0, error = None,
                               fallback_used = False, command = cmd \<rparr>, child)
                      else
                        (Inr \<lparr> status = FAILED, tool = tname, output' = stdout_str,
                               parsed_json = PNone,
                               duration_ms = elapsed_ms env,
                               returncode = or_int process_returncode (- 1),
                               error = Some (if stderr \<noteq> [] then stderr else []),
                               fallback_used = False, command = cmd \<rparr>, child))
              | (Inl e, process_returncode, child) \<Rightarrow>
                  (case e of
                     TimeoutError \<Rightarrow>
                       (Inr \<lparr> status = TIMEOUT, tool = tname, output' = [],
                              parsed_json = PNone,
                              duration_ms = elapsed_ms env, returncode = - 1,
                              error = Some (''Timeout after '' @ show_int timeout @ ''s''),
                              fallback_used = False, command = cmd \<rparr>, child)
                   | _ \<Rightarrow> (Inl e, child))))"

section \<open>ParallelCoordinator: \<open>invoke_parallel\<close>\<close>

text \<open>
  \<open>invoke_parallel\<close> creates one task per prompt; each task acquires the semaphore, runs
  \<open>invoke_async\<close> on its prompt with every other argument at its default, and releases
  the semaphore; \<open>asyncio.gather\<close> collects the results by the position of the task.
  The scheduler is an input of the model: a schedule is the list of the events in the
  order in which they happen. \<open>Acquire i\<close> is task \<open>i\<close> taking a permit, possible while it
  waits and a permit is free; \<open>Finish i\<close> is the \<open>invoke_async\<close> of task \<open>i\<close> ending and
  its permit being given back, possible while it holds one. The child process of task
  \<open>i\<close> behaves as \<open>envs i\<close>. \<open>gather\<close> without \<open>return_exceptions\<close> raises the first
  exception a task raises, as soon as it is raised (\<open>raised\<close>), and returns the list of
  results once every task is done. \<open>asyncio.Semaphore\<close> refuses a negative value.
\<close>

datatype task_state = Waiting | Holding | Done "exn + CLIInvocationResult"

record par_state =
  permits :: nat
  tasks :: "task_state list"
  raised :: "exn option"

datatype event = Acquire nat | Finish nat

definition par_init :: "nat \<Rightarrow> string list \<Rightarrow> par_state" where
  "par_init n prompts = \<lparr> permits = n, tasks = map (\<lambda>p. Waiting) prompts, raised = None \<rparr>"

definition invoke_with_limit ::
  "CLIOrchestrator \<Rightarrow> string \<Rightarrow> proc_env \<Rightarrow> exn + CLIInvocationResult" where
  "invoke_with_limit self prompt env = fst (invoke_async self prompt None None None None env)"

fun step ::
  "CLIOrchestrator \<Rightarrow> string list \<Rightarrow> (nat \<Rightarrow> proc_env) \<Rightarrow> event \<Rightarrow> par_state \<Rightarrow> par_state option" where
  "step self prompts envs (Acquire i) s =
     (if i < length (tasks s) \<and> tasks s ! i = Waiting \<and> 0 < permits s
      then Some (s\<lparr> permits := permits s - 1, tasks := (tasks s)[i := Holding] \<rparr>)
      else None)"
| "step self prompts envs (Finish i) s =
     (if i < length (tasks s) \<and> i < length prompts \<and> tasks s ! i = Holding
      then (let r = invoke_with_limit self (prompts ! i) (envs i)
            in Some (s\<lparr> permits := permits s + 1,
                         tasks := (tasks s)[i := Done r],
                         raised := (case raised s of
                                      Some e \<Rightarrow> Some e
                                    | None \<Rightarrow> (case r of Inl e \<Rightarrow> Some e | Inr x \<Rightarrow> None)) \<rparr>))
      else None)"

fun run ::
  "CLIOrchestrator \<Rightarrow> string list \<Rightarrow> (nat \<Rightarrow> proc_env) \<Rightarrow> event list \<Rightarrow> par_state \<Rightarrow> par_state option" where
  "run self prompts envs [] s = Some s"
| "run self prompts envs (ev # evs) s =
     (case step self prompts envs ev s of
        None \<Rightarrow> None
      | Some s' \<Rightarrow> run self prompts envs evs s')"

fun collect :: "task_state list \<Rightarrow> CLIInvocationResult list option" where
  "collect [] = Some []"
| "collect (t # ts) =
     (case t of
        Done (Inr r) \<Rightarrow> (case collect ts of None \<Rightarrow> None | Some rs \<Rightarrow> Some (r # rs))
      | _ \<Rightarrow> None)"

definition gather :: "par_state \<Rightarrow> (exn + CLIInvocationResult list) option" where
  "gather s =
     (case raised s of
        Some e \<Rightarrow> Some (Inl e)
      | None \<Rightarrow> (case collect (tasks s) of None \<Rightarrow> None | Some rs \<Rightarrow> Some (Inr rs)))"

text \<open>
  The outcome of \<open>invoke_parallel\<close> after the events of a schedule: \<open>None\<close> while it has
  not returned (or where the schedule asks for an event that cannot happen),
  \<open>Some (Inl e)\<close> where it raises, \<open>Some (Inr rs)\<close> where it returns the list \<open>rs\<close>.
  \<open>quiescent\<close> holds of a state in which no task can move: the schedule is complete.
\<close>

definition invoke_parallel ::
  "CLIOrchestrator \<Rightarrow> string list \<Rightarrow> int \<Rightarrow> (nat \<Rightarrow> proc_env) \<Rightarrow> event list
     \<Rightarrow> (exn + CLIInvocationResult list) option" where
  "invoke_parallel self prompts max_concurrent envs schedule =
     (if max_concurrent < 0 then Some (Inl ValueError)
      else case run self prompts envs schedule (par_init (nat max_concurrent) prompts) of
             None \<Rightarrow> None
           | Some s \<Rightarrow> gather s)"


text \<open>
  \<open>returned x\<close> is the result an invoker returned, \<open>None\<close> where it raised instead.
  \<open>example_env\<close> is an environment for the worked examples.
\<close>

definition returned :: "(exn + CLIInvocationResult) \<times> child_state \<Rightarrow> CLIInvocationResult option" where
  "returned x = (case fst x of Inl e \<Rightarrow> None | Inr r \<Rightarrow> Some r)"

definition example_env :: "proc_behaviour \<Rightarrow> proc_env" where
  "example_env b = \<lparr> behaviour = b, elapsed_ms = 1500 \<rparr>"




definition holders :: "par_state \<Rightarrow> nat" where
  "holders s = length (filter (\<lambda>t. t = Holding) (tasks s))"

definition par_inv ::
  "CLIOrchestrator \<Rightarrow> string list \<Rightarrow> (nat \<Rightarrow> proc_env) \<Rightarrow> nat \<Rightarrow> par_state \<Rightarrow> bool" where
  "par_inv self prompts envs n s \<longleftrightarrow>
     length (tasks s) = length prompts
   \<and> permits s + holders s = n
   \<and> (\<forall>i<length prompts. \<forall>r. tasks s ! i = Done r \<longrightarrow>
         r = invoke_with_limit self (prompts ! i) (envs i))
   \<and> (\<forall>e. raised s = Some e \<longrightarrow>
         (\<exists>i<length prompts. invoke_with_limit self (prompts ! i) (envs i) = Inl e))"



definition opencode_orchestrator :: CLIOrchestrator where
  "opencode_orchestrator = init_orchestrator ''opencode'' None 30 None ''/srv''"

section \<open>CommandBuilder: the shape of the argument vector\<close>

text \<open>The flags that precede \<open>-p\<close> on the primary path, as one expression.\<close>

definition flag_pairs :: "string \<Rightarrow> string list option \<Rightarrow> string list" where
  "flag_pairs flag v = concat (map (\<lambda>x. [flag, x]) (case v of None \<Rightarrow> [] | Some xs \<Rightarrow> xs))"

definition opt_pair :: "string \<Rightarrow> string option \<Rightarrow> string list" where
  "opt_pair flag v = (case v of None \<Rightarrow> [] | Some x \<Rightarrow> if x = [] then [] else [flag, x])"

lemma extend_each_eq: "extend_each cmd flag xs = cmd @ concat (map (\<lambda>x. [flag, x]) xs)"
  by (induction xs arbitrary: cmd) simp_all

lemma extend_all_eq: "extend_all cmd flag v = cmd @ flag_pairs flag v"
  by (cases v) (simp_all add: flag_pairs_def extend_each_eq)

lemma extend_opt_eq: "extend_opt cmd flag v = cmd @ opt_pair flag v"
  by (cases v) (simp_all add: opt_pair_def)

lemma build_command_primary:
  "tname \<noteq> ''opencode'' \<Longrightarrow>
   build_command tname prompt model allowed_tools add_dirs settings_json sb =
     (let pre = [''claude''] @ opt_pair ''--model'' model @ opt_pair ''--settings'' settings_json
                @ flag_pairs ''--add-dir'' add_dirs @ flag_pairs ''--allowedTools'' allowed_tools
      in if sb then (pre @ [''-p''], Some (sandbox_payload prompt))
         else (pre @ [''-p'', prompt], None))"
  unfolding build_command_def Let_def
  by (simp add: extend_all_eq extend_opt_eq del: extend_opt.simps extend_all.simps)

lemma build_command_fallback:
  "build_command ''opencode'' prompt model allowed_tools add_dirs settings_json sb =
     ([''opencode'', ''run''] @ opt_pair ''--model'' model @ [prompt], None)"
  unfolding build_command_def Let_def
  by (simp add: extend_opt_eq del: extend_opt.simps extend_all.simps)

text \<open>
  Claim C2. On the primary path (any tool name other than \<open>opencode\<close>) and for every
  prompt and option set: in sandbox mode the argument vector is the option flags followed
  by \<open>-p\<close> and nothing else, and the standard-input payload is \<open>/sandbox\<close>, a newline and
  the prompt; in non-sandbox mode the argument vector is the same flags followed by \<open>-p\<close>
  and the prompt, and there is no payload. So the non-sandbox vector is the sandbox vector
  with the prompt appended as its trailing element, and the sandbox vector is the same
  for every prompt: the prompt is never placed in it.
\<close>

theorem build_command_sandbox_placement:
  assumes "tname \<noteq> ''opencode''"
  shows "build_command tname prompt model allowed_tools add_dirs settings_json True =
           ([''claude''] @ opt_pair ''--model'' model @ opt_pair ''--settings'' settings_json
              @ flag_pairs ''--add-dir'' add_dirs @ flag_pairs ''--allowedTools'' allowed_tools
              @ [''-p''],
            Some (''/sandbox'' @ [CHR 0x0A] @ prompt))
       \<and> build_command tname prompt model allowed_tools add_dirs settings_json False =
           ([''claude''] @ opt_pair ''--model'' model @ opt_pair ''--settings'' settings_json
              @ flag_pairs ''--add-dir'' add_dirs @ flag_pairs ''--allowedTools'' allowed_tools
              @ [''-p'', prompt],
            None)
       \<and> fst (build_command tname prompt model allowed_tools add_dirs settings_json False) =
           fst (build_command tname prompt model allowed_tools add_dirs settings_json True) @ [prompt]
       \<and> last (fst (build_command tname prompt model allowed_tools add_dirs settings_json False)) = prompt
       \<and> fst (build_command tname prompt model allowed_tools add_dirs settings_json True) =
           fst (build_command tname other_prompt model allowed_tools add_dirs settings_json True)"
  using assms by (simp add: build_command_primary sandbox_payload_def Let_def)

theorem build_command_sandbox_placement_witness:
  "build_command ''claude'' ''hi'' (Some ''opus'') (Some [''Read'']) (Some [''/tmp'']) None True =
     ([''claude'', ''--model'', ''opus'', ''--add-dir'', ''/tmp'', ''--allowedTools'', ''Read'', ''-p''],
      Some (''/sandbox'' @ [CHR 0x0A] @ ''hi''))
   \<and> build_command ''claude'' ''hi'' (Some ''opus'') (Some [''Read'']) (Some [''/tmp'']) None False =
     ([''claude'', ''--model'', ''opus'', ''--add-dir'', ''/tmp'', ''--allowedTools'', ''Read'', ''-p'', ''hi''],
      None)"
  using build_command_sandbox_placement
          [of "''claude''" "''hi''" "Some ''opus''" "Some [''Read'']" "Some [''/tmp'']" None "''hi''"]
  by (simp add: opt_pair_def flag_pairs_def)

text \<open>
  Claim C9. For the fallback tool (the tool name \<open>opencode\<close>), every prompt and every
  optional model: the argument vector is exactly \<open>opencode run\<close>, then \<open>--model\<close> and the
  model when a (non-empty) model is given and nothing otherwise, then the prompt as the
  final argument; there is no standard-input payload; and the settings, add-dir,
  allowedTools and sandbox options change nothing.
\<close>

theorem build_command_fallback_shape:
  "build_command ''opencode'' prompt model allowed_tools add_dirs settings_json enable_sandbox =
     ([''opencode'', ''run'']
        @ (case model of None \<Rightarrow> [] | Some m \<Rightarrow> if m = [] then [] else [''--model'', m])
        @ [prompt],
      None)
   \<and> build_command ''opencode'' prompt model allowed_tools add_dirs settings_json enable_sandbox =
     build_command ''opencode'' prompt model None None None False"
  by (simp add: build_command_fallback opt_pair_def)

section \<open>Results of the invokers\<close>

lemma invoke_sync_cases:
  "invoke_sync self prompt tool_arg timeout_arg wd allowed env = (Inr r, c) \<Longrightarrow>
     (\<exists>out err. behaviour env = Exits 0 out err \<and> status r = SUCCESS \<and> returncode r = 0
         \<and> error r = None \<and> output' r = out \<and> parsed_json r = extract_json_from_output out)
   \<or> (\<exists>rc out err. behaviour env = Exits rc out err \<and> rc \<noteq> 0 \<and> status r = FAILED
         \<and> returncode r = rc \<and> error r = Some err \<and> output' r = out)
   \<or> (\<exists>partial. behaviour env = Hangs partial \<and> status r = TIMEOUT \<and> returncode r = - 1
        \<and> output' r = []
        \<and> error r = Some (''Timeout after '' @ show_int (or_int timeout_arg (default_timeout self)) @ ''s''))"
  unfolding invoke_sync_def subprocess_run_def Let_def
  by (cases "behaviour env") (auto split: prod.splits if_splits)

lemma invoke_async_cases:
  "invoke_async self prompt tool_arg timeout_arg wd allowed env = (Inr r, c) \<Longrightarrow>
     (\<exists>out err. behaviour env = Exits 0 out err \<and> status r = SUCCESS \<and> returncode r = 0
         \<and> error r = None \<and> output' r = out \<and> parsed_json r = extract_json_from_output out)
   \<or> (\<exists>rc out err. behaviour env = Exits rc out err \<and> rc \<noteq> 0 \<and> status r = FAILED
         \<and> returncode r = rc \<and> error r = Some err \<and> output' r = out)
   \<or> (\<exists>partial. behaviour env = Hangs partial \<and> status r = TIMEOUT \<and> returncode r = - 1
        \<and> output' r = [] \<and> c = Running
        \<and> error r = Some (''Timeout after '' @ show_int (or_int timeout_arg (default_timeout self)) @ ''s''))"
  unfolding invoke_async_def create_subprocess_exec_def wait_for_communicate_def Let_def
  by (cases "behaviour env") (auto split: prod.splits if_splits simp: or_int_def)

lemma invoke_flags:
  "invoke_sync self prompt tool_arg timeout_arg wd allowed env = (Inr r, c)
     \<or> invoke_async self prompt tool_arg timeout_arg wd allowed env = (Inr r, c) \<Longrightarrow>
   fallback_used r = False \<and> status r \<noteq> FALLBACK"
  unfolding invoke_sync_def invoke_async_def subprocess_run_def create_subprocess_exec_def
    wait_for_communicate_def Let_def
  by (cases "behaviour env") (auto split: prod.splits if_splits)

text \<open>
  Claim C1. Every result that \<open>invoke_sync\<close> or \<open>invoke_async\<close> returns satisfies: a
  \<open>SUCCESS\<close> result has return code 0 and no error; a \<open>FAILED\<close> result has a non-zero
  return code and an error that is not \<open>None\<close>; a \<open>TIMEOUT\<close> result has return code -1
  and the error message \<open>Timeout after <t>s\<close>, where \<open>t\<close> is the timeout in force (the
  argument, or the orchestrator's default where the argument is \<open>None\<close> or 0).
\<close>

theorem invocation_result_invariants:
  assumes "invoke_sync self prompt tool_arg timeout_arg wd allowed env = (Inr r, c)
         \<or> invoke_async self prompt tool_arg timeout_arg wd allowed env = (Inr r, c)"
  shows "(status r = SUCCESS \<longrightarrow> returncode r = 0 \<and> error r = None)
       \<and> (status r = FAILED \<longrightarrow> returncode r \<noteq> 0 \<and> error r \<noteq> None)
       \<and> (status r = TIMEOUT \<longrightarrow> returncode r = - 1
            \<and> error r = Some (''Timeout after ''
                                 @ show_int (or_int timeout_arg (default_timeout self)) @ ''s''))"
  using assms invoke_sync_cases[of self prompt tool_arg timeout_arg wd allowed env r c]
        invoke_async_cases[of self prompt tool_arg timeout_arg wd allowed env r c]
  by auto

lemma show_int_5: "show_int 5 = ''5''"
  by code_simp

lemma sync_hang_example:
  "\<exists>r. invoke_sync (default_orchestrator ''/'') ''hi'' (Some ''opencode'') (Some 5) None None
          (example_env (Hangs ''partial'')) = (Inr r, Reaped) \<and> status r = TIMEOUT"
  by (simp add: invoke_sync_def subprocess_run_def example_env_def Let_def or_list_def
      build_command_def default_orchestrator_def init_orchestrator_def)

theorem invocation_result_invariants_witness:
  "\<exists>r. invoke_sync (default_orchestrator ''/'') ''hi'' (Some ''opencode'') (Some 5) None None
          (example_env (Hangs ''partial'')) = (Inr r, Reaped)
       \<and> status r = TIMEOUT \<and> returncode r = - 1 \<and> error r = Some ''Timeout after 5s''"
proof -
  obtain r where r: "invoke_sync (default_orchestrator ''/'') ''hi'' (Some ''opencode'') (Some 5)
       None None (example_env (Hangs ''partial'')) = (Inr r, Reaped)" and t: "status r = TIMEOUT"
    using sync_hang_example by blast
  from invocation_result_invariants[OF disjI1[OF r]] t
  have "returncode r = - 1 \<and> error r = Some (''Timeout after '' @ show_int 5 @ ''s'')"
    by (simp add: or_int_def)
  with r t show ?thesis by (auto simp: show_int_5)
qed

text \<open>
  Claim C7 says that a timed-out invocation keeps the standard output captured before
  the timeout. It does not: with a child that has written \<open>partial output\<close> when the
  timeout expires, both invokers return a \<open>TIMEOUT\<close> result whose output is empty.
\<close>

theorem timeout_discards_partial_stdout:
  "map_option status (returned (invoke_sync (default_orchestrator ''/'') ''hi'' None None None None
       (example_env (Hangs ''partial output'')))) = Some TIMEOUT
   \<and> map_option output' (returned (invoke_sync (default_orchestrator ''/'') ''hi'' None None None None
       (example_env (Hangs ''partial output'')))) = Some []
   \<and> map_option status (returned (invoke_async (default_orchestrator ''/'') ''hi'' None None None None
       (example_env (Hangs ''partial output'')))) = Some TIMEOUT
   \<and> map_option output' (returned (invoke_async (default_orchestrator ''/'') ''hi'' None None None None
       (example_env (Hangs ''partial output'')))) = Some []"
  by (simp add: invoke_sync_def invoke_async_def subprocess_run_def create_subprocess_exec_def
      wait_for_communicate_def example_env_def Let_def returned_def split: prod.splits)

text \<open>
  Claim C7, amended. A \<open>FAILED\<close> result of either invoker keeps in its output field the
  standard output of the child, which exited; a \<open>TIMEOUT\<close> result of either invoker has
  the empty output, whatever the child had written when the timeout expired.
\<close>

theorem failed_keeps_stdout_timeout_empties:
  assumes "invoke_sync self prompt tool_arg timeout_arg wd allowed env = (Inr r, c)
         \<or> invoke_async self prompt tool_arg timeout_arg wd allowed env = (Inr r, c)"
  shows "(status r = FAILED \<longrightarrow> (\<exists>rc err. behaviour env = Exits rc (output' r) err))
       \<and> (status r = TIMEOUT \<longrightarrow> output' r = [] \<and> (\<exists>partial. behaviour env = Hangs partial))"
  using assms invoke_sync_cases[of self prompt tool_arg timeout_arg wd allowed env r c]
        invoke_async_cases[of self prompt tool_arg timeout_arg wd allowed env r c]
  by auto

lemma async_fail_example:
  "\<exists>r. invoke_async (default_orchestrator ''/'') ''hi'' (Some ''opencode'') None None None
          (example_env (Exits 2 ''half an answer'' ''boom'')) = (Inr r, Reaped) \<and> status r = FAILED"
  by (simp add: invoke_async_def create_subprocess_exec_def wait_for_communicate_def
      example_env_def Let_def or_list_def or_int_def
      build_command_def default_orchestrator_def init_orchestrator_def)

theorem failed_keeps_stdout_timeout_empties_witness:
  "\<exists>r. invoke_async (default_orchestrator ''/'') ''hi'' (Some ''opencode'') None None None
          (example_env (Exits 2 ''half an answer'' ''boom'')) = (Inr r, Reaped)
       \<and> status r = FAILED \<and> output' r = ''half an answer''"
proof -
  obtain r where r: "invoke_async (default_orchestrator ''/'') ''hi'' (Some ''opencode'') None
       None None (example_env (Exits 2 ''half an answer'' ''boom'')) = (Inr r, Reaped)"
    and t: "status r = FAILED"
    using async_fail_example by blast
  from failed_keeps_stdout_timeout_empties[OF disjI2[OF r]] t
  have "output' r = ''half an answer''"
    by (simp add: example_env_def)
  with r t show ?thesis by auto
qed

text \<open>
  Claim C8 asks that after a timeout of \<open>invoke_async\<close> the child is terminated and
  reaped. For every call whose child is still running when the timeout expires,
  \<open>invoke_async\<close> returns a \<open>TIMEOUT\<close> result and leaves the child running; on the same
  input \<open>invoke_sync\<close> leaves it reaped.
\<close>

theorem async_timeout_leaves_child_running:
  "map_option status (returned (invoke_async self prompt tool_arg timeout_arg wd allowed
       \<lparr> behaviour = Hangs partial, elapsed_ms = ms \<rparr>)) = Some TIMEOUT
   \<and> snd (invoke_async self prompt tool_arg timeout_arg wd allowed
       \<lparr> behaviour = Hangs partial, elapsed_ms = ms \<rparr>) = Running
   \<and> snd (invoke_sync self prompt tool_arg timeout_arg wd allowed
       \<lparr> behaviour = Hangs partial, elapsed_ms = ms \<rparr>) = Reaped"
  by (simp add: invoke_sync_def invoke_async_def subprocess_run_def create_subprocess_exec_def
      wait_for_communicate_def Let_def returned_def split: prod.splits)

section \<open>Results of the extractor\<close>






lemma first_parsed_None_iff: "first_parsed ms = None \<longleftrightarrow> (\<forall>m \<in> set ms. json_loads m = None)"
  by (induction ms) (auto split: option.splits)




section \<open>The worked example of the specification\<close>

lemma extract_four: "extract_json_from_output ''4'' = PInt 4"
  by code_simp

lemma default_primary: "primary_cli (default_orchestrator cwd) = ''claude''"
  by (simp add: default_orchestrator_def init_orchestrator_def)

lemma sync_two_plus_two:
  "invoke_sync (default_orchestrator cwd) ''What is 2+2?'' None None None None
       \<lparr> behaviour = Exits 0 ''4'' err, elapsed_ms = ms \<rparr> =
     (Inr \<lparr> status = SUCCESS, tool = ''claude'', output' = ''4'', parsed_json = PInt 4,
            duration_ms = ms, returncode = 0, error = None, fallback_used = False,
            command = [''claude''] @ flag_pairs ''--allowedTools'' (Some DEFAULT_ALLOWED_TOOLS)
                        @ [''-p'', ''What is 2+2?''] \<rparr>,
      Reaped)"
  by (simp add: invoke_sync_def subprocess_run_def Let_def or_list_def default_primary
      build_command_primary opt_pair_def extract_four flag_pairs_def)

text \<open>
  Claim C6 says that for the prompt \<open>What is 2+2?\<close> on the primary tool the argument
  vector begins with the binary, \<open>-p\<close> and the prompt, and that standard output \<open>4\<close>
  gives \<open>parsed_json = None\<close>. On the default orchestrator the three leading arguments
  are \<open>claude --allowedTools Write\<close>, and \<open>parsed_json\<close> is the integer 4.
\<close>

theorem two_plus_two_not_as_claimed:
  "map_option (take 3 \<circ> command) (returned (invoke_sync (default_orchestrator ''/'')
       ''What is 2+2?'' None None None None (example_env (Exits 0 ''4'' [])))) =
     Some [''claude'', ''--allowedTools'', ''Write'']
   \<and> map_option parsed_json (returned (invoke_sync (default_orchestrator ''/'')
       ''What is 2+2?'' None None None None (example_env (Exits 0 ''4'' [])))) = Some (PInt 4)"
  by (simp add: sync_two_plus_two example_env_def returned_def flag_pairs_def DEFAULT_ALLOWED_TOOLS_def)

text \<open>
  Claim C6, amended. For the prompt \<open>What is 2+2?\<close> given to \<open>invoke_sync\<close> of the default
  orchestrator with every other argument at its default, the argument vector is the
  primary binary \<open>claude\<close>, then \<open>--allowedTools T\<close> for each of the default pre-approved
  tools, then \<open>-p\<close> and the prompt; an exit code 0 with standard output \<open>4\<close> gives
  status \<open>SUCCESS\<close>, output \<open>4\<close> and \<open>parsed_json = 4\<close>, the integer the whole output
  decodes to.
\<close>

theorem two_plus_two_result:
  "invoke_sync (default_orchestrator cwd) ''What is 2+2?'' None None None None
       \<lparr> behaviour = Exits 0 ''4'' err, elapsed_ms = ms \<rparr> =
     (Inr \<lparr> status = SUCCESS, tool = ''claude'', output' = ''4'', parsed_json = PInt 4,
            duration_ms = ms, returncode = 0, error = None, fallback_used = False,
            command = [''claude''] @ flag_pairs ''--allowedTools'' (Some DEFAULT_ALLOWED_TOOLS)
                        @ [''-p'', ''What is 2+2?''] \<rparr>,
      Reaped)"
  by (rule sync_two_plus_two)

theorem two_plus_two_result_witness:
  "map_option command (returned (invoke_sync (default_orchestrator ''/srv'') ''What is 2+2?''
       None None None None \<lparr> behaviour = Exits 0 ''4'' ''note'', elapsed_ms = 1200 \<rparr>)) =
     Some [''claude'',
           ''--allowedTools'', ''Write'', ''--allowedTools'', ''Read'',
           ''--allowedTools'', ''Edit'', ''--allowedTools'', ''Glob'',
           ''--allowedTools'', ''Grep'', ''--allowedTools'', ''LS'',
           ''--allowedTools'', ''Bash'', ''--allowedTools'', ''Task'',
           ''--allowedTools'', ''Skill'', ''--allowedTools'', ''WebFetch'',
           ''--allowedTools'', ''WebSearch'',
           ''--allowedTools'', ''mcp__perplexity-ask__perplexity_ask'',
           ''--allowedTools'', ''mcp__context7__resolve-library-id'',
           ''--allowedTools'', ''mcp__context7__get-library-docs'',
           ''--allowedTools'', ''mcp__brave-search__brave_web_search'',
           ''-p'', ''What is 2+2?'']
   \<and> map_option status (returned (invoke_sync (default_orchestrator ''/srv'') ''What is 2+2?''
       None None None None \<lparr> behaviour = Exits 0 ''4'' ''note'', elapsed_ms = 1200 \<rparr>)) = Some SUCCESS
   \<and> map_option parsed_json (returned (invoke_sync (default_orchestrator ''/srv'') ''What is 2+2?''
       None None None None \<lparr> behaviour = Exits 0 ''4'' ''note'', elapsed_ms = 1200 \<rparr>)) = Some (PInt 4)"
  using two_plus_two_result[of "''/srv''" "''note''" 1200]
  by (simp add: returned_def flag_pairs_def DEFAULT_ALLOWED_TOOLS_def)

section \<open>Results of the parallel coordinator\<close>


lemma filter_length_update:
  "i < length xs \<Longrightarrow>
   length (filter P (xs[i := v])) + (if P (xs ! i) then 1 else 0)
     = length (filter P xs) + (if P v then 1 else 0)"
proof (induction xs arbitrary: i)
  case Nil
  then show ?case by simp
next
  case (Cons x xs)
  show ?case
  proof (cases i)
    case 0
    then show ?thesis by simp
  next
    case (Suc j)
    with Cons.prems have "j < length xs" by simp
    from Cons.IH[OF this] Suc show ?thesis by simp
  qed
qed




lemma par_inv_init: "par_inv self prompts envs n (par_init n prompts)"
  by (simp add: par_inv_def par_init_def holders_def)

lemma step_inv:
  assumes "step self prompts envs ev s = Some s'" and "par_inv self prompts envs n s"
  shows "par_inv self prompts envs n s'"
proof (cases ev)
  case (Acquire i)
  with assms(1) have i: "i < length (tasks s)" "tasks s ! i = Waiting" "0 < permits s"
    and s': "s' = s\<lparr> permits := permits s - 1, tasks := (tasks s)[i := Holding] \<rparr>"
    by (auto split: if_splits)
  from filter_length_update[OF i(1), of "\<lambda>t. t = Holding" Holding] i(2)
  have h: "holders s' = Suc (holders s)"
    by (simp add: holders_def s')
  from assms(2) i h show ?thesis
    by (auto simp: par_inv_def s' nth_list_update)
next
  case (Finish i)
  let ?r = "invoke_with_limit self (prompts ! i) (envs i)"
  from Finish assms(1) have i: "i < length (tasks s)" "i < length prompts" "tasks s ! i = Holding"
    and s': "s' = s\<lparr> permits := permits s + 1, tasks := (tasks s)[i := Done ?r],
                     raised := (case raised s of Some e \<Rightarrow> Some e
                                | None \<Rightarrow> (case ?r of Inl e \<Rightarrow> Some e | Inr x \<Rightarrow> None)) \<rparr>"
    by (auto split: if_splits simp: Let_def)
  from filter_length_update[OF i(1), of "\<lambda>t. t = Holding" "Done ?r"] i(3)
  have h: "Suc (holders s') = holders s"
    by (simp add: holders_def s')
  have l: "length (tasks s') = length prompts"
    using assms(2) by (simp add: par_inv_def s')
  have p: "permits s' + holders s' = n"
    using assms(2) h by (simp add: par_inv_def s')
  have d: "\<forall>j<length prompts. \<forall>x. tasks s' ! j = Done x \<longrightarrow>
             x = invoke_with_limit self (prompts ! j) (envs j)"
    using assms(2) i by (auto simp: par_inv_def s' nth_list_update)
  have e: "\<forall>e. raised s' = Some e \<longrightarrow>
             (\<exists>j<length prompts. invoke_with_limit self (prompts ! j) (envs j) = Inl e)"
    using assms(2) i(2) by (auto simp: par_inv_def s' split: option.splits sum.splits)
  from l p d e show ?thesis by (simp add: par_inv_def)
qed

lemma run_inv:
  "run self prompts envs evs s = Some s' \<Longrightarrow> par_inv self prompts envs n s \<Longrightarrow>
   par_inv self prompts envs n s'"
proof (induction evs arbitrary: s)
  case Nil
  then show ?case by simp
next
  case (Cons ev evs)
  then obtain s1 where s1: "step self prompts envs ev s = Some s1"
    and r: "run self prompts envs evs s1 = Some s'"
    by (auto split: option.splits)
  from Cons.IH[OF r step_inv[OF s1 Cons.prems(2)]] show ?case .
qed

lemma run_append:
  "run self prompts envs (evs @ evs') s =
     (case run self prompts envs evs s of None \<Rightarrow> None
      | Some s1 \<Rightarrow> run self prompts envs evs' s1)"
  by (induction evs arbitrary: s) (auto split: option.splits)

lemma collect_Some:
  "collect ts = Some rs \<Longrightarrow>
   length rs = length ts \<and> (\<forall>i<length ts. ts ! i = Done (Inr (rs ! i)))"
proof (induction ts arbitrary: rs)
  case Nil
  then show ?case by simp
next
  case (Cons t ts)
  then obtain r rs' where t: "t = Done (Inr r)" and c: "collect ts = Some rs'" and rs: "rs = r # rs'"
    by (auto split: task_state.splits sum.splits option.splits)
  from Cons.IH[OF c] t rs show ?case
    by (auto simp: nth_Cons split: nat.splits)
qed


lemma gather_aligned:
  assumes "par_inv self prompts envs n s" and "gather s = Some (Inr rs)"
  shows "length rs = length prompts
       \<and> (\<forall>i<length prompts. invoke_with_limit self (prompts ! i) (envs i) = Inr (rs ! i))"
proof -
  from assms(2) have c: "collect (tasks s) = Some rs"
    by (auto simp: gather_def split: option.splits)
  from collect_Some[OF c] assms(1) show ?thesis
    by (auto simp: par_inv_def)
qed


lemma invoke_with_limit_OSError:
  "behaviour env = SpawnFails \<Longrightarrow> invoke_with_limit self prompt env = Inl OSError"
  unfolding invoke_with_limit_def invoke_async_def create_subprocess_exec_def Let_def
  by (auto split: prod.splits)











lemma status_cases:
  "status r \<noteq> FALLBACK \<Longrightarrow> status r \<in> {SUCCESS, FAILED, TIMEOUT}"
  by (cases "status r") simp_all

lemma invoke_tool:
  "invoke_sync self prompt tool_arg timeout_arg wd allowed env = (Inr r, c)
     \<or> invoke_async self prompt tool_arg timeout_arg wd allowed env = (Inr r, c) \<Longrightarrow>
   tool r = or_list tool_arg (primary_cli self)"
  unfolding invoke_sync_def invoke_async_def subprocess_run_def create_subprocess_exec_def
    wait_for_communicate_def Let_def
  by (cases "behaviour env") (auto split: prod.splits if_splits)

lemma fallback_cli_unused:
  "invoke_sync (self\<lparr> fallback_cli := fb \<rparr>) prompt tool_arg timeout_arg wd allowed env
     = invoke_sync self prompt tool_arg timeout_arg wd allowed env"
  "invoke_async (self\<lparr> fallback_cli := fb \<rparr>) prompt tool_arg timeout_arg wd allowed env
     = invoke_async self prompt tool_arg timeout_arg wd allowed env"
  by (simp_all add: invoke_sync_def invoke_async_def)

text \<open>
  Claim C10. Every result returned by \<open>invoke_sync\<close> or \<open>invoke_async\<close>, and every
  element of a list returned by \<open>invoke_parallel\<close>, has \<open>fallback_used = False\<close> and a
  status among \<open>SUCCESS\<close>, \<open>FAILED\<close>, \<open>TIMEOUT\<close>, and names as its tool the tool that was
  asked for (the primary tool where none was); and the configured fallback tool has no
  influence on what \<open>invoke_sync\<close> and \<open>invoke_async\<close> do: no path dispatches to it.
\<close>

theorem fallback_never_taken:
  "(invoke_sync self prompt tool_arg timeout_arg wd allowed env = (Inr r, c)
      \<or> invoke_async self prompt tool_arg timeout_arg wd allowed env = (Inr r, c) \<longrightarrow>
        fallback_used r = False \<and> status r \<in> {SUCCESS, FAILED, TIMEOUT}
      \<and> tool r = or_list tool_arg (primary_cli self))
   \<and> (invoke_parallel self prompts N envs schedule = Some (Inr rs) \<longrightarrow>
        (\<forall>x \<in> set rs. fallback_used x = False \<and> status x \<in> {SUCCESS, FAILED, TIMEOUT}
           \<and> tool x = primary_cli self))
   \<and> invoke_sync (self\<lparr> fallback_cli := fb \<rparr>) prompt tool_arg timeout_arg wd allowed env
       = invoke_sync self prompt tool_arg timeout_arg wd allowed env
   \<and> invoke_async (self\<lparr> fallback_cli := fb \<rparr>) prompt tool_arg timeout_arg wd allowed env
       = invoke_async self prompt tool_arg timeout_arg wd allowed env"
proof -
  have a: "fallback_used r = False \<and> status r \<in> {SUCCESS, FAILED, TIMEOUT}
      \<and> tool r = or_list tool_arg (primary_cli self)"
    if "invoke_sync self prompt tool_arg timeout_arg wd allowed env = (Inr r, c)
      \<or> invoke_async self prompt tool_arg timeout_arg wd allowed env = (Inr r, c)"
    using invoke_flags[OF that] invoke_tool[OF that] status_cases by blast
  have b: "\<forall>x \<in> set rs. fallback_used x = False \<and> status x \<in> {SUCCESS, FAILED, TIMEOUT}
           \<and> tool x = primary_cli self"
    if o: "invoke_parallel self prompts N envs schedule = Some (Inr rs)"
  proof
    fix x assume "x \<in> set rs"
    then obtain i where i: "i < length rs" "rs ! i = x" by (auto simp: in_set_conv_nth)
    from o have nn: "\<not> N < 0" by (auto simp: invoke_parallel_def split: if_splits)
    with o obtain s where r: "run self prompts envs schedule (par_init (nat N) prompts) = Some s"
      and g: "gather s = Some (Inr rs)"
      by (auto simp: invoke_parallel_def split: option.splits)
    from gather_aligned[OF run_inv[OF r par_inv_init] g] i
    have "invoke_with_limit self (prompts ! i) (envs i) = Inr x" by auto
    then have "invoke_async self (prompts ! i) None None None None (envs i)
                 = (Inr x, snd (invoke_async self (prompts ! i) None None None None (envs i)))"
      by (simp add: invoke_with_limit_def prod_eq_iff)
    then have ia: "invoke_sync self (prompts ! i) None None None None (envs i)
                 = (Inr x, snd (invoke_async self (prompts ! i) None None None None (envs i)))
             \<or> invoke_async self (prompts ! i) None None None None (envs i)
                 = (Inr x, snd (invoke_async self (prompts ! i) None None None None (envs i)))"
      by (rule disjI2)
    from invoke_flags[OF ia] invoke_tool[OF ia] status_cases[of x]
    show "fallback_used x = False \<and> status x \<in> {SUCCESS, FAILED, TIMEOUT}
           \<and> tool x = primary_cli self"
      by (simp add: or_list_def)
  qed
  from a b show ?thesis
    by (simp only: fallback_cli_unused) blast
qed

lemma sync_fail_example:
  "\<exists>r. invoke_sync opencode_orchestrator ''hi'' None None None None
          (example_env (Exits 2 ''half an answer'' ''boom'')) = (Inr r, Reaped) \<and> status r = FAILED"
  by (simp add: invoke_sync_def subprocess_run_def example_env_def Let_def or_list_def
      build_command_def opencode_orchestrator_def init_orchestrator_def)

theorem fallback_never_taken_witness:
  "\<exists>r. invoke_sync opencode_orchestrator ''hi'' None None None None
          (example_env (Exits 2 ''half an answer'' ''boom'')) = (Inr r, Reaped)
       \<and> status r = FAILED \<and> fallback_used r = False \<and> tool r = ''opencode''"
proof -
  obtain r where r: "invoke_sync opencode_orchestrator ''hi'' None None None None
          (example_env (Exits 2 ''half an answer'' ''boom'')) = (Inr r, Reaped)"
    and t: "status r = FAILED"
    using sync_fail_example by blast
  from fallback_never_taken[of opencode_orchestrator "''hi''" None None None None
         "example_env (Exits 2 ''half an answer'' ''boom'')" r Reaped] r
  have "fallback_used r = False \<and> tool r = or_list None (primary_cli opencode_orchestrator)"
    by blast
  with r t show ?thesis
    by (auto simp: or_list_def opencode_orchestrator_def init_orchestrator_def)
qed

end
